theory Spec2Isabelle
  imports Complex_Main
begin

section \<open>JavaScript values\<close>

text \<open>
  The values that \<^verbatim>\<open>express.json()\<close> can place in \<^verbatim>\<open>req.body\<close>, plus
  \<^verbatim>\<open>undefined\<close>, which reading a missing property yields. A number is a real: JSON
  cannot denote NaN, and the handlers only compare numbers with \<open>0\<close> and with each other
  (signed zero and the rounding of doubles are outside the model). A string is the list of
  its code units. An object is the list of its own properties in insertion order; property
  lookup takes the first entry for a key.
\<close>

datatype jv =
    JUndefined
  | JNull
  | JBool bool
  | JNum real
  | JStr string
  | JArr "jv list"
  | JObj "(string \<times> jv) list"

datatype js_type = TUndefined | TObject | TBoolean | TNumber | TString

text \<open>The \<^verbatim>\<open>typeof\<close> operator.\<close>

fun typeof :: "jv \<Rightarrow> js_type" where
  "typeof JUndefined = TUndefined"
| "typeof JNull = TObject"
| "typeof (JBool b) = TBoolean"
| "typeof (JNum n) = TNumber"
| "typeof (JStr s) = TString"
| "typeof (JArr xs) = TObject"
| "typeof (JObj kvs) = TObject"

text \<open>Truthiness, as \<^verbatim>\<open>!x\<close> and \<^verbatim>\<open>x && ...\<close> test it.\<close>

fun truthy :: "jv \<Rightarrow> bool" where
  "truthy JUndefined = False"
| "truthy JNull = False"
| "truthy (JBool b) = b"
| "truthy (JNum n) = (n \<noteq> 0)"
| "truthy (JStr s) = (s \<noteq> [])"
| "truthy (JArr xs) = True"
| "truthy (JObj kvs) = True"

text \<open>Reading property \<open>k\<close> of an object: \<^verbatim>\<open>undefined\<close> when it has none.\<close>

definition property :: "(string \<times> jv) list \<Rightarrow> string \<Rightarrow> jv" where
  "property kvs k = (case map_of kvs k of None \<Rightarrow> JUndefined | Some v \<Rightarrow> v)"

text \<open>
  What \<^verbatim>\<open>app.use(express.json())\<close> parses: in its (default) strict mode an object or
  an array and nothing else.
\<close>

datatype parsed_body = ObjBody "(string \<times> jv) list" | ArrBody "jv list"

text \<open>
  \<^verbatim>\<open>req.body\<close> as a handler finds it. The repository does not fix the version of
  express. When the request has no body to parse, express 4 sets \<^verbatim>\<open>req.body\<close> to
  \<^verbatim>\<open>{}\<close>, which is \<open>Some (ObjBody [])\<close>; express 5 leaves it \<^verbatim>\<open>undefined\<close>,
  which is \<open>None\<close>.
\<close>

type_synonym req_body = "parsed_body option"

text \<open>
  \<^verbatim>\<open>req.body.k\<close> on a parsed body, for the keys the handlers read (\<^verbatim>\<open>name\<close>, \<^verbatim>\<open>price\<close>,
  \<^verbatim>\<open>username\<close>, \<^verbatim>\<open>password\<close>): an array has none of them.
\<close>

fun body_prop :: "parsed_body \<Rightarrow> string \<Rightarrow> jv" where
  "body_prop (ObjBody kvs) k = property kvs k"
| "body_prop (ArrBody xs) k = JUndefined"

text \<open>
  \<^verbatim>\<open>Object.keys(req.body).length\<close> on a parsed body: the properties of an object, the
  indices of an array.
\<close>

fun keys_length :: "parsed_body \<Rightarrow> nat" where
  "keys_length (ObjBody kvs) = length kvs"
| "keys_length (ArrBody xs) = length xs"

text \<open>What \<^verbatim>\<open>res.status(s).json(j)\<close> sends.\<close>

record response =
  status :: nat
  json :: jv

definition message :: "nat \<Rightarrow> string \<Rightarrow> response" where
  "message s m = \<lparr>status = s, json = JObj [(''message'', JStr m)]\<rparr>"

text \<open>
  The answer to a \<^verbatim>\<open>TypeError\<close> thrown outside every \<^verbatim>\<open>try\<close> of a handler,
  which happens where a handler reads \<^verbatim>\<open>req.body\<close> and it is \<^verbatim>\<open>undefined\<close>.
  That is express 5, which passes the rejection of an \<^verbatim>\<open>async\<close> handler to its error
  handler: status 500 and an error page, no JSON payload (\<open>JUndefined\<close> here).
\<close>

definition uncaught :: response where
  "uncaught = \<lparr>status = 500, json = JUndefined\<rparr>"

section \<open>The document store\<close>

text \<open>
  The MongoDB driver is an external collaborator; this is a model of the calls the handlers
  make. An identifier is an ObjectId in its hexadecimal form, which is also how
  \<^verbatim>\<open>res.json\<close> prints it. A collection is the list of its documents in insertion
  order, each the pair of its \<^verbatim>\<open>_id\<close> and its other fields. \<open>online\<close> says whether
  store calls succeed: when it is false every call throws, which the handlers catch.
\<close>

type_synonym oid = string
type_synonym doc = "(string \<times> jv) list"
type_synonym collection = "(oid \<times> doc) list"

record store =
  items :: collection
  users :: collection
  online :: bool

datatype store_error = StoreError

text \<open>
  \<^verbatim>\<open>ObjectId.isValid\<close> and \<^verbatim>\<open>new ObjectId(string)\<close> belong to the driver, whose
  version the repository does not fix: they are parameters of the handlers.
\<close>

record objectid_lib =
  isValid :: "string \<Rightarrow> bool"
  ObjectId :: "string \<Rightarrow> oid"

text \<open>
  The driver's serialisation of a value. The client of \<^verbatim>\<open>app.js\<close> is built without
  \<^verbatim>\<open>ignoreUndefined\<close>, so \<^verbatim>\<open>undefined\<close> is written as \<^verbatim>\<open>null\<close>.
\<close>

fun bson :: "jv \<Rightarrow> jv" where
  "bson JUndefined = JNull"
| "bson JNull = JNull"
| "bson (JBool b) = JBool b"
| "bson (JNum n) = JNum n"
| "bson (JStr s) = JStr s"
| "bson (JArr xs) = JArr (map bson xs)"
| "bson (JObj kvs) = JObj (map (map_prod id bson) kvs)"

definition bson_doc :: "doc \<Rightarrow> doc" where
  "bson_doc d = map (map_prod id bson) d"

text \<open>\<^verbatim>\<open>find({}).toArray()\<close>: every document, its \<^verbatim>\<open>_id\<close> first.\<close>

definition with_id :: "oid \<times> doc \<Rightarrow> jv" where
  "with_id e = JObj ((''_id'', JStr (fst e)) # snd e)"

definition find_toArray :: "bool \<Rightarrow> collection \<Rightarrow> store_error + jv list" where
  "find_toArray up c = (if \<not> up then Inl StoreError else Inr (map with_id c))"

text \<open>
  \<^verbatim>\<open>insertOne(d)\<close>, where \<open>i\<close> is the identifier the driver generates for the
  document: the call fails when the store is unreachable or the identifier is taken (the
  unique index on \<^verbatim>\<open>_id\<close>).
\<close>

definition insertOne :: "bool \<Rightarrow> oid \<Rightarrow> doc \<Rightarrow> collection \<Rightarrow> store_error + collection" where
  "insertOne up i d c =
     (if \<not> up then Inl StoreError
      else if map_of c i \<noteq> None then Inl StoreError
      else Inr (c @ [(i, bson_doc d)]))"

text \<open>\<^verbatim>\<open>findOne({_id: i})\<close>.\<close>

definition findOne_id :: "bool \<Rightarrow> oid \<Rightarrow> collection \<Rightarrow> store_error + jv option" where
  "findOne_id up i c =
     (if \<not> up then Inl StoreError
      else Inr (map_option (\<lambda>d. with_id (i, d)) (map_of c i)))"

text \<open>\<^verbatim>\<open>deleteOne({_id: i})\<close> removes the first document with that identifier.\<close>

fun remove_first :: "oid \<Rightarrow> collection \<Rightarrow> collection" where
  "remove_first i [] = []"
| "remove_first i ((j, d) # c) = (if j = i then c else (j, d) # remove_first i c)"

record delete_result =
  deletedCount :: nat

definition deleteOne :: "bool \<Rightarrow> oid \<Rightarrow> collection \<Rightarrow> store_error + collection \<times> delete_result" where
  "deleteOne up i c =
     (if \<not> up then Inl StoreError
      else Inr (remove_first i c,
                \<lparr>deletedCount = (if map_of c i = None then 0 else 1)\<rparr>))"

text \<open>
  \<^verbatim>\<open>updateOne({_id: i}, {$set: upd})\<close>: each field of \<open>upd\<close>, serialised, replaces the
  field of that name in the first matching document, or is appended to it.
  \<open>matchedCount\<close> counts the document found, \<open>modifiedCount\<close> the document changed.
\<close>

fun set_field :: "string \<Rightarrow> jv \<Rightarrow> doc \<Rightarrow> doc" where
  "set_field k v [] = [(k, v)]"
| "set_field k v ((k', v') # d) =
     (if k' = k then (k, v) # d else (k', v') # set_field k v d)"

fun apply_set :: "doc \<Rightarrow> doc \<Rightarrow> doc" where
  "apply_set [] d = d"
| "apply_set ((k, v) # upd) d = apply_set upd (set_field k (bson v) d)"

fun replace_first :: "oid \<Rightarrow> doc \<Rightarrow> collection \<Rightarrow> collection" where
  "replace_first i d' [] = []"
| "replace_first i d' ((j, d) # c) =
     (if j = i then (j, d') # c else (j, d) # replace_first i d' c)"

record update_result =
  matchedCount :: nat
  modifiedCount :: nat

definition updateOne :: "bool \<Rightarrow> oid \<Rightarrow> doc \<Rightarrow> collection \<Rightarrow> store_error + collection \<times> update_result" where
  "updateOne up i upd c =
     (if \<not> up then Inl StoreError
      else case map_of c i of
        None \<Rightarrow> Inr (c, \<lparr>matchedCount = 0, modifiedCount = 0\<rparr>)
      | Some d \<Rightarrow>
          Inr (replace_first i (apply_set upd d) c,
               \<lparr>matchedCount = 1, modifiedCount = (if apply_set upd d = d then 0 else 1)\<rparr>))"

section \<open>The item handlers\<close>

text \<open>
  Each handler takes the store and returns it with the response. \<^verbatim>\<open>POST /items\<close>
  also takes \<open>fresh\<close>, the identifier the driver will generate for the new document.
  A handler that reads \<^verbatim>\<open>req.body\<close> does so outside its \<^verbatim>\<open>try\<close>: when the body is
  \<^verbatim>\<open>undefined\<close> the read throws and the answer is \<open>uncaught\<close>.
\<close>

definition get_items :: "store \<Rightarrow> store \<times> response" where
  "get_items st =
     (case find_toArray (online st) (items st) of
        Inr allItems \<Rightarrow> (st, \<lparr>status = 200, json = JArr allItems\<rparr>)
      | Inl error \<Rightarrow> (st, message 500 ''Failed to retrieve items due to server error.''))"

definition post_items :: "oid \<Rightarrow> store \<Rightarrow> req_body \<Rightarrow> store \<times> response" where
  "post_items fresh st body =
     (case body of
        None \<Rightarrow> (st, uncaught)
      | Some b \<Rightarrow>
         (let newItem = [(''name'', body_prop b ''name''), (''price'', body_prop b ''price'')]
          in if \<not> truthy (property newItem ''name'') \<or> typeof (property newItem ''price'') \<noteq> TNumber
                \<or> (case property newItem ''price'' of JNum p \<Rightarrow> p \<le> 0 | _ \<Rightarrow> False)
             then (st, message 400 ''Name (string) and positive Price (number) are required!'')
             else (case insertOne (online st) fresh newItem (items st) of
                Inr c \<Rightarrow> (st\<lparr>items := c\<rparr>,
                          \<lparr>status = 201, json = JObj (newItem @ [(''_id'', JStr fresh)])\<rparr>)
              | Inl error \<Rightarrow> (st, message 500 ''Failed to create item.''))))"

definition get_item :: "objectid_lib \<Rightarrow> store \<Rightarrow> string \<Rightarrow> store \<times> response" where
  "get_item lib st requestedID =
     (if \<not> isValid lib requestedID
      then (st, message 400 ''Invalid ID format. Must be a valid MongoDB ObjectId.'')
      else case findOne_id (online st) (ObjectId lib requestedID) (items st) of
          Inr (Some foundItem) \<Rightarrow> (st, \<lparr>status = 200, json = foundItem\<rparr>)
        | Inr None \<Rightarrow> (st, message 404 ''Item not found!'')
        | Inl error \<Rightarrow> (st, message 500 ''Failed to retrieve item due to server error.''))"

definition delete_item :: "objectid_lib \<Rightarrow> store \<Rightarrow> string \<Rightarrow> store \<times> response" where
  "delete_item lib st requestedID =
     (if \<not> isValid lib requestedID
      then (st, message 400 ''Invalid ID format. Must be a valid MongoDB ObjectId.'')
      else case deleteOne (online st) (ObjectId lib requestedID) (items st) of
          Inr (c, result) \<Rightarrow>
            (if deletedCount result = 1
             then (st\<lparr>items := c\<rparr>, message 200 ''Item has been deleted!'')
             else (st\<lparr>items := c\<rparr>, message 404 ''Item not found!''))
        | Inl error \<Rightarrow> (st, message 500 ''Failed to delete item due to server error.''))"

text \<open>
  The four early returns of \<^verbatim>\<open>PUT /items/:id\<close>: \<open>Some\<close> is the rejection sent.
  After the identifier check, \<^verbatim>\<open>Object.keys(req.body)\<close> throws when the body is
  \<^verbatim>\<open>undefined\<close>.
\<close>

definition put_validation :: "objectid_lib \<Rightarrow> string \<Rightarrow> req_body \<Rightarrow> response option" where
  "put_validation lib requestedID body =
     (if \<not> isValid lib requestedID
      then Some (message 400 ''Invalid ID format. Must be a valid MongoDB ObjectId.'')
      else (case body of
          None \<Rightarrow> Some uncaught
        | Some b \<Rightarrow>
           (if keys_length b = 0
            then Some (message 400 ''Request body cannot be empty for update.'')
            else if truthy (body_prop b ''name'') \<and> typeof (body_prop b ''name'') \<noteq> TString
            then Some (message 400 ''Name must be a string if provided.'')
            else if truthy (body_prop b ''price'')
                    \<and> (typeof (body_prop b ''price'') \<noteq> TNumber
                       \<or> (case body_prop b ''price'' of JNum p \<Rightarrow> p \<le> 0 | _ \<Rightarrow> False))
            then Some (message 400 ''Price must be a positive number if provided.'')
            else None)))"

text \<open>The response chosen from the result of \<^verbatim>\<open>updateOne\<close>.\<close>

definition update_response :: "string \<Rightarrow> update_result \<Rightarrow> response" where
  "update_response requestedID updateResult =
     (if matchedCount updateResult = 0 then message 404 ''Item not found!''
      else if modifiedCount updateResult = 0
      then message 200 ''Item found, but no changes applied (data was identical).''
      else \<lparr>status = 200,
            json = JObj [(''message'', JStr ''Item updated successfully!''),
                         (''updatedId'', JStr requestedID)]\<rparr>)"

definition put_item :: "objectid_lib \<Rightarrow> store \<Rightarrow> string \<Rightarrow> req_body \<Rightarrow> store \<times> response" where
  "put_item lib st requestedID body =
     (case put_validation lib requestedID body of
        Some rejection \<Rightarrow> (st, rejection)
      | None \<Rightarrow>
         (case body of
            None \<Rightarrow> (st, uncaught)
          | Some b \<Rightarrow>
             (let newData = [(''name'', body_prop b ''name''), (''price'', body_prop b ''price'')]
              in case updateOne (online st) (ObjectId lib requestedID) newData (items st) of
                   Inr (c, updateResult) \<Rightarrow>
                     (st\<lparr>items := c\<rparr>, update_response requestedID updateResult)
                 | Inl error \<Rightarrow>
                     (st, message 500 ''Failed to update item due to server error.''))))"

section \<open>The registration handler\<close>

text \<open>
  \<^verbatim>\<open>usersCollection.findOne({username: q})\<close> for a query value \<open>q\<close> that is not an
  operator document: the first user whose \<^verbatim>\<open>username\<close> equals \<open>q\<close> or is an array
  holding \<open>q\<close>; \<^verbatim>\<open>null\<close> also matches a document without the field.
\<close>

definition eq_match :: "jv \<Rightarrow> jv \<Rightarrow> bool" where
  "eq_match q v = (v = q \<or> (case v of JArr xs \<Rightarrow> q \<in> set xs | _ \<Rightarrow> False))"

definition username_matches :: "jv \<Rightarrow> oid \<times> doc \<Rightarrow> bool" where
  "username_matches q e =
     (case map_of (snd e) ''username'' of
        None \<Rightarrow> bson q = JNull
      | Some v \<Rightarrow> eq_match (bson q) v)"

definition findOne_username :: "bool \<Rightarrow> jv \<Rightarrow> collection \<Rightarrow> store_error + (oid \<times> doc) option" where
  "findOne_username up q c =
     (if \<not> up then Inl StoreError else Inr (find (username_matches q) c))"

text \<open>
  A query value that is an object with a key starting with \<^verbatim>\<open>$\<close> is read by the store
  as an operator expression; the query language is outside this model.
\<close>

fun operator_query :: "jv \<Rightarrow> bool" where
  "operator_query (JObj kvs) = list_ex (\<lambda>e. take 1 (fst e) = ''$'') kvs"
| "operator_query v = False"

text \<open>
  \<^verbatim>\<open>password.length < 6\<close>. A string and an array have their length; a number
  and a boolean have no \<^verbatim>\<open>length\<close>, and \<^verbatim>\<open>undefined < 6\<close> is false; an object
  may carry a property of that name. \<open>None\<close> stands for what is not modelled: the
  coercion of a string, an array or an object to a number, and the exception that reading
  a property of \<^verbatim>\<open>undefined\<close> or \<^verbatim>\<open>null\<close> throws (the handler never gets there:
  the password is truthy at this point).
\<close>

fun length_lt_6 :: "jv \<Rightarrow> bool option" where
  "length_lt_6 (JStr s) = Some (length s < 6)"
| "length_lt_6 (JArr xs) = Some (length xs < 6)"
| "length_lt_6 (JNum n) = Some False"
| "length_lt_6 (JBool b) = Some False"
| "length_lt_6 (JObj kvs) =
     (case property kvs ''length'' of
        JUndefined \<Rightarrow> Some False
      | JNull \<Rightarrow> Some True
      | JBool b \<Rightarrow> Some True
      | JNum n \<Rightarrow> Some (n < 6)
      | _ \<Rightarrow> None)"
| "length_lt_6 JUndefined = None"
| "length_lt_6 JNull = None"

text \<open>
  \<^verbatim>\<open>bcrypt.hash(password, salt)\<close>: the hashing primitive \<open>hash\<close> is a parameter; the
  call is rejected (\<^verbatim>\<open>Illegal arguments\<close>) when the password is not a string.
\<close>

datatype bcrypt_error = IllegalArguments

fun bcrypt_hash :: "(string \<Rightarrow> string \<Rightarrow> string) \<Rightarrow> jv \<Rightarrow> string \<Rightarrow> bcrypt_error + string" where
  "bcrypt_hash hash (JStr p) salt = Inr (hash p salt)"
| "bcrypt_hash hash v salt = Inl IllegalArguments"

text \<open>
  \<^verbatim>\<open>POST /register\<close>. \<open>salt\<close> is what \<^verbatim>\<open>bcrypt.genSalt(10)\<close> returns and \<open>fresh\<close>
  the identifier the driver generates for the new user. Destructuring \<^verbatim>\<open>req.body\<close>
  throws when it is \<^verbatim>\<open>undefined\<close>. The result is \<open>None\<close> exactly where the
  request leaves the model (see \<open>length_lt_6\<close> and \<open>operator_query\<close>).
\<close>

definition register :: "(string \<Rightarrow> string \<Rightarrow> string) \<Rightarrow> string \<Rightarrow> oid \<Rightarrow> store \<Rightarrow> req_body \<Rightarrow> (store \<times> response) option" where
  "register hash salt fresh st body =
     (case body of
        None \<Rightarrow> Some (st, uncaught)
      | Some b \<Rightarrow>
     (let username = body_prop b ''username''; password = body_prop b ''password''
      in if \<not> truthy username \<or> \<not> truthy password
         then Some (st, message 400 ''Enter a username and password to register.'')
         else case length_lt_6 password of
             None \<Rightarrow> None
           | Some True \<Rightarrow> Some (st, message 400 ''Password must be less than 6 characters'')
           | Some False \<Rightarrow>
               (if operator_query username then None
                else (case findOne_username (online st) username (users st) of
                   Inl error \<Rightarrow> Some (st, message 500 ''Server error during registration.'')
                 | Inr (Some user) \<Rightarrow>
                     Some (st, message 409 ''User already exists pls try another name!'')
                 | Inr None \<Rightarrow>
                     (case bcrypt_hash hash password salt of
                        Inl error \<Rightarrow> Some (st, message 500 ''Server error during registration.'')
                      | Inr hashedPassword \<Rightarrow>
                          (case insertOne (online st) fresh
                                  [(''username'', username), (''password'', JStr hashedPassword)]
                                  (users st) of
                             Inl error \<Rightarrow>
                               Some (st, message 500 ''Server error during registration.'')
                           | Inr c \<Rightarrow>
                               Some (st\<lparr>users := c\<rparr>,
                                     \<lparr>status = 201,
                                      json = JObj [(''message'', JStr ''User registered successfully!''),
                                                   (''userId'', JStr fresh)]\<rparr>)))))))"

section \<open>The item invariant and sample data\<close>

text \<open>
  The invariant the data model states for a persisted item, in its words: the name is a
  non-empty string and the price a number greater than zero.
\<close>

definition item_ok :: "doc \<Rightarrow> bool" where
  "item_ok d =
     ((case map_of d ''name'' of Some (JStr s) \<Rightarrow> s \<noteq> [] | _ \<Rightarrow> False)
      \<and> (case map_of d ''price'' of Some (JNum p) \<Rightarrow> 0 < p | _ \<Rightarrow> False))"

text \<open>A value that JSON can denote: no \<^verbatim>\<open>undefined\<close> anywhere in it.\<close>

fun json_value :: "jv \<Rightarrow> bool" where
  "json_value JUndefined = False"
| "json_value JNull = True"
| "json_value (JBool b) = True"
| "json_value (JNum n) = True"
| "json_value (JStr s) = True"
| "json_value (JArr xs) = list_all json_value xs"
| "json_value (JObj kvs) = list_all (\<lambda>e. json_value (snd e)) kvs"

text \<open>
  Concrete parameters for the instances below: identifiers of 24 lower-case hexadecimal
  digits that \<^verbatim>\<open>new ObjectId\<close> keeps as they are, a stand-in for the hashing
  primitive, and a store holding one item.
\<close>

definition hex24 :: objectid_lib where
  "hex24 = \<lparr>isValid = (\<lambda>s. length s = 24 \<and> list_all (\<lambda>c. c \<in> set ''0123456789abcdef'') s),
            ObjectId = (\<lambda>s. s)\<rparr>"

definition toy_hash :: "string \<Rightarrow> string \<Rightarrow> string" where
  "toy_hash p salt = salt @ rev p"

definition pen_id :: string where
  "pen_id = ''507f1f77bcf86cd799439011''"

definition pen_store :: store where
  "pen_store = \<lparr>items = [(pen_id, [(''name'', JStr ''Pen''), (''price'', JNum 1.5)])],
                users = [], online = True\<rparr>"

definition empty_store :: store where
  "empty_store = \<lparr>items = [], users = [], online = True\<rparr>"



section \<open>Properties\<close>

subsection \<open>Auxiliary lemmas\<close>

lemma hex24_pen: "isValid hex24 pen_id" "ObjectId hex24 pen_id = pen_id"
  by (simp_all add: hex24_def pen_id_def)

lemma bson_json: "json_value v \<Longrightarrow> bson v = v"
proof (induction v rule: bson.induct)
  case (6 xs)
  then show ?case by (simp add: list_all_iff map_idI)
next
  case (7 kvs)
  then have "\<And>e. e \<in> set kvs \<Longrightarrow> map_prod id bson e = e"
    by (auto simp: list_all_iff)
  then show ?case by (simp add: map_idI)
qed simp_all





text \<open>The unique index on \<^verbatim>\<open>_id\<close> is kept by \<open>insertOne\<close>.\<close>

lemma insertOne_distinct:
  "distinct (map fst c) \<Longrightarrow> insertOne up i d c = Inr c' \<Longrightarrow> distinct (map fst c')"
  by (auto simp: insertOne_def map_of_eq_None_iff split: if_splits)

text \<open>The store never reports a document modified that it did not match.\<close>

lemma updateOne_counts:
  assumes "updateOne up i upd c = Inr (c', r)"
  shows "modifiedCount r \<le> matchedCount r"
  using assms by (auto simp: updateOne_def split: if_splits option.splits)

text \<open>What the validation of \<^verbatim>\<open>POST /items\<close> does reject, with no store call.\<close>

lemma post_items_rejects:
  assumes "\<not> truthy (body_prop body ''name'') \<or> typeof (body_prop body ''price'') \<noteq> TNumber
           \<or> (\<exists>p. body_prop body ''price'' = JNum p \<and> p \<le> 0)"
  shows "post_items fresh st (Some body)
           = (st, message 400 ''Name (string) and positive Price (number) are required!'')"
  using assms by (auto simp: post_items_def Let_def property_def)

lemma post_items_created:
  assumes "post_items fresh st (Some body) = (st', r)" and "status r = 201"
  shows "(\<exists>p. body_prop body ''price'' = JNum p \<and> 0 < p) \<and> truthy (body_prop body ''name'')
       \<and> online st \<and> map_of (items st) fresh = None"
  using assms
  by (auto simp: post_items_def Let_def property_def insertOne_def message_def
      split: if_splits sum.splits jv.splits)


text \<open>The response to a registration is the same whatever the hashing primitive returns.\<close>

lemma register_hash_independent:
  "map_option snd (register hash salt fresh st body)
     = map_option snd (register hash' salt' fresh st body)"
proof (cases body)
  case None
  then show ?thesis by (simp add: register_def)
next
  case (Some b)
  show ?thesis
  proof (cases "body_prop b ''password''")
    case (JStr p)
    with Some show ?thesis
      unfolding register_def Let_def
      by (auto simp: insertOne_def split: if_splits option.splits bool.splits sum.splits)
  qed (auto simp: Some register_def Let_def insertOne_def
        split: if_splits option.splits bool.splits sum.splits)
qed

subsection \<open>Updating an item\<close>

text \<open>
  C1 (the claim: fields absent from the body of an update are left unchanged). The handler
  does not do this. For every update that passes validation and finds its item, the stored
  document has \<^emph>\<open>both\<close> fields set: \<^verbatim>\<open>name\<close> to the serialised
  \<^verbatim>\<open>req.body.name\<close> and \<^verbatim>\<open>price\<close> to the serialised \<^verbatim>\<open>req.body.price\<close>,
  and a field the body lacks reads \<^verbatim>\<open>undefined\<close>, which is stored as \<^verbatim>\<open>null\<close>.
  The instance after the theorem updates only the name of an item priced 1.5: its price
  becomes \<^verbatim>\<open>null\<close>.
\<close>

theorem put_item_sets_both_fields:
  assumes "put_validation lib requestedID (Some body) = None"
    and "online st"
    and "map_of (items st) (ObjectId lib requestedID) = Some d"
  shows "fst (put_item lib st requestedID (Some body))
           = st\<lparr>items := replace_first (ObjectId lib requestedID)
                   (set_field ''price'' (bson (body_prop body ''price''))
                      (set_field ''name'' (bson (body_prop body ''name'')) d))
                   (items st)\<rparr>"
  using assms by (simp add: put_item_def updateOne_def Let_def)

theorem put_item_sets_both_fields_witness:
  "put_validation hex24 pen_id (Some (ObjBody [(''name'', JStr ''Pen2'')])) = None
   \<and> online pen_store
   \<and> map_of (items pen_store) (ObjectId hex24 pen_id)
       = Some [(''name'', JStr ''Pen''), (''price'', JNum 1.5)]
   \<and> fst (put_item hex24 pen_store pen_id (Some (ObjBody [(''name'', JStr ''Pen2'')])))
       = pen_store\<lparr>items := [(pen_id, [(''name'', JStr ''Pen2''), (''price'', JNull)])]\<rparr>"
proof -
  have v: "put_validation hex24 pen_id (Some (ObjBody [(''name'', JStr ''Pen2'')])) = None"
    by (simp add: put_validation_def hex24_pen property_def)
  have up: "online pen_store" by (simp add: pen_store_def)
  have d: "map_of (items pen_store) (ObjectId hex24 pen_id)
             = Some [(''name'', JStr ''Pen''), (''price'', JNum 1.5)]"
    by (simp add: pen_store_def hex24_pen)
  show ?thesis
    using put_item_sets_both_fields[OF v up d] v up d
    by (simp add: property_def hex24_pen) (simp add: pen_store_def)
qed

text \<open>
  C2 (the claim: no request stores or mutates an item so that its price is not a positive
  number or its name not a non-empty string). The update handler tests the price only when
  it is truthy, and \<open>0\<close> is not: on a store whose items all satisfy the invariant, the
  update \<^verbatim>\<open>{name: "Pen", price: 0}\<close> is accepted, answered with 200, and leaves the
  item with price \<open>0\<close>.
\<close>

theorem put_item_breaks_invariant:
  "list_all (\<lambda>e. item_ok (snd e)) (items pen_store)
   \<and> put_item hex24 pen_store pen_id (Some (ObjBody [(''name'', JStr ''Pen''), (''price'', JNum 0)]))
       = (pen_store\<lparr>items := [(pen_id, [(''name'', JStr ''Pen''), (''price'', JNum 0)])]\<rparr>,
          \<lparr>status = 200,
           json = JObj [(''message'', JStr ''Item updated successfully!''),
                        (''updatedId'', JStr pen_id)]\<rparr>)
   \<and> \<not> item_ok [(''name'', JStr ''Pen''), (''price'', JNum 0)]"
  by (simp add: put_item_def put_validation_def updateOne_def update_response_def property_def
      hex24_pen item_ok_def pen_store_def)

text \<open>
  C5. For an update that passes validation, the response is chosen from the result \<open>r\<close> of
  the store's \<^verbatim>\<open>updateOne\<close>, existence first: no match gives 404; a match with nothing
  modified gives 200 with the "no changes" message; a modification gives 200 with the
  "updated" message. So an update that finds its item identical succeeds.
\<close>

theorem update_response_by_counts:
  assumes "put_validation lib requestedID (Some body) = None"
    and "updateOne (online st) (ObjectId lib requestedID)
           [(''name'', body_prop body ''name''), (''price'', body_prop body ''price'')] (items st)
         = Inr (c, r)"
  shows "(matchedCount r = 0 \<longrightarrow>
            put_item lib st requestedID (Some body) = (st\<lparr>items := c\<rparr>, message 404 ''Item not found!''))
       \<and> (0 < matchedCount r \<and> modifiedCount r = 0 \<longrightarrow>
            put_item lib st requestedID (Some body)
              = (st\<lparr>items := c\<rparr>,
                 message 200 ''Item found, but no changes applied (data was identical).''))
       \<and> (0 < modifiedCount r \<longrightarrow>
            put_item lib st requestedID (Some body)
              = (st\<lparr>items := c\<rparr>,
                 \<lparr>status = 200,
                  json = JObj [(''message'', JStr ''Item updated successfully!''),
                               (''updatedId'', JStr requestedID)]\<rparr>))"
  using assms updateOne_counts[OF assms(2)]
  by (auto simp: put_item_def update_response_def)

theorem update_response_by_counts_witness:
  "put_validation hex24 pen_id (Some (ObjBody [(''name'', JStr ''Pen''), (''price'', JNum 2)])) = None
   \<and> put_item hex24 empty_store pen_id (Some (ObjBody [(''name'', JStr ''Pen''), (''price'', JNum 2)]))
       = (empty_store, message 404 ''Item not found!'')
   \<and> put_validation hex24 pen_id (Some (ObjBody [(''name'', JStr ''Pen''), (''price'', JNum 1.5)])) = None
   \<and> put_item hex24 pen_store pen_id (Some (ObjBody [(''name'', JStr ''Pen''), (''price'', JNum 1.5)]))
       = (pen_store, message 200 ''Item found, but no changes applied (data was identical).'')
   \<and> put_item hex24 pen_store pen_id (Some (ObjBody [(''name'', JStr ''Pen''), (''price'', JNum 2)]))
       = (pen_store\<lparr>items := [(pen_id, [(''name'', JStr ''Pen''), (''price'', JNum 2)])]\<rparr>,
          \<lparr>status = 200,
           json = JObj [(''message'', JStr ''Item updated successfully!''),
                        (''updatedId'', JStr pen_id)]\<rparr>)"
proof -
  let ?b2 = "ObjBody [(''name'', JStr ''Pen''), (''price'', JNum 2)]"
  let ?b1 = "ObjBody [(''name'', JStr ''Pen''), (''price'', JNum 1.5)]"
  have v2: "put_validation hex24 pen_id (Some ?b2) = None"
    by (simp add: put_validation_def hex24_pen property_def)
  have v1: "put_validation hex24 pen_id (Some ?b1) = None"
    by (simp add: put_validation_def hex24_pen property_def)
  have absent: "updateOne (online empty_store) (ObjectId hex24 pen_id)
       [(''name'', body_prop ?b2 ''name''), (''price'', body_prop ?b2 ''price'')] (items empty_store)
     = Inr ([], \<lparr>matchedCount = 0, modifiedCount = 0\<rparr>)"
    by (simp add: updateOne_def empty_store_def)
  have same: "updateOne (online pen_store) (ObjectId hex24 pen_id)
       [(''name'', body_prop ?b1 ''name''), (''price'', body_prop ?b1 ''price'')] (items pen_store)
     = Inr (items pen_store, \<lparr>matchedCount = 1, modifiedCount = 0\<rparr>)"
    by (simp add: updateOne_def pen_store_def hex24_pen property_def)
  have changed: "updateOne (online pen_store) (ObjectId hex24 pen_id)
       [(''name'', body_prop ?b2 ''name''), (''price'', body_prop ?b2 ''price'')] (items pen_store)
     = Inr ([(pen_id, [(''name'', JStr ''Pen''), (''price'', JNum 2)])],
            \<lparr>matchedCount = 1, modifiedCount = 1\<rparr>)"
    by (simp add: updateOne_def pen_store_def hex24_pen property_def)
  have e: "empty_store\<lparr>items := []\<rparr> = empty_store" "pen_store\<lparr>items := items pen_store\<rparr> = pen_store"
    by (simp_all add: empty_store_def)
  show ?thesis
    using update_response_by_counts[OF v2 absent] update_response_by_counts[OF v1 same]
      update_response_by_counts[OF v2 changed] v1 v2 e
    by simp
qed

text \<open>
  A body parsed as an empty object or an empty array is answered 400 and the store is
  returned as it was, whatever the store holds and whether or not it is reachable. (With a
  malformed identifier the 400 is the one of the identifier check, which comes first.)
\<close>

lemma empty_body_rejected:
  assumes "keys_length body = 0"
  shows "put_item lib st requestedID (Some body)
           = (st, if isValid lib requestedID
                  then message 400 ''Request body cannot be empty for update.''
                  else message 400 ''Invalid ID format. Must be a valid MongoDB ObjectId.'')
       \<and> status (snd (put_item lib st requestedID (Some body))) = 400"
  using assms by (simp add: put_item_def put_validation_def message_def)

text \<open>
  C8 (the claim: an update with an empty body is always answered 400, whether or not the
  item exists). The emptiness check does precede every store call, and a body parsed as
  \<^verbatim>\<open>{}\<close> or \<^verbatim>\<open>[]\<close> is answered 400 with its message on every store. But the check
  is \<^verbatim>\<open>Object.keys(req.body).length === 0\<close>, outside the \<^verbatim>\<open>try\<close>: a request with
  a well-formed identifier and no body at all, which express 5 hands over with
  \<^verbatim>\<open>req.body\<close> undefined, makes it throw, and the answer is 500, not 400.
\<close>

theorem put_item_empty_or_missing_body:
  assumes "isValid lib requestedID"
  shows "put_item lib st requestedID None = (st, uncaught)
       \<and> status uncaught = 500
       \<and> (keys_length body = 0 \<longrightarrow>
            put_item lib st requestedID (Some body)
              = (st, message 400 ''Request body cannot be empty for update.''))"
  using assms by (simp add: put_item_def put_validation_def uncaught_def)

theorem put_item_empty_or_missing_body_witness:
  "isValid hex24 pen_id
   \<and> put_item hex24 pen_store pen_id None = (pen_store, \<lparr>status = 500, json = JUndefined\<rparr>)
   \<and> put_item hex24 empty_store pen_id None = (empty_store, \<lparr>status = 500, json = JUndefined\<rparr>)
   \<and> keys_length (ObjBody []) = 0
   \<and> put_item hex24 pen_store pen_id (Some (ObjBody []))
        = (pen_store, message 400 ''Request body cannot be empty for update.'')
   \<and> put_item hex24 empty_store pen_id (Some (ObjBody []))
        = (empty_store, message 400 ''Request body cannot be empty for update.'')"
  using put_item_empty_or_missing_body[OF hex24_pen(1), of pen_store "ObjBody []"]
    put_item_empty_or_missing_body[OF hex24_pen(1), of empty_store "ObjBody []"]
  by (simp add: hex24_pen uncaught_def)

subsection \<open>Identifiers\<close>

text \<open>
  C6. A malformed identifier (one that \<^verbatim>\<open>ObjectId.isValid\<close> refuses) makes each of the
  three id-addressed handlers (get, update, delete) answer 400 and return the store as it
  was, whatever the store holds and whether or not it is reachable, and for the update
  whatever the body is, absent or parsed: no store call is made.
\<close>

theorem malformed_id_rejected:
  assumes "\<not> isValid lib requestedID"
  shows "get_item lib st requestedID
           = (st, message 400 ''Invalid ID format. Must be a valid MongoDB ObjectId.'')
       \<and> put_item lib st requestedID body
           = (st, message 400 ''Invalid ID format. Must be a valid MongoDB ObjectId.'')
       \<and> delete_item lib st requestedID
           = (st, message 400 ''Invalid ID format. Must be a valid MongoDB ObjectId.'')"
  using assms by (simp add: get_item_def put_item_def put_validation_def delete_item_def)

theorem malformed_id_rejected_witness:
  "\<not> isValid hex24 ''42''
   \<and> get_item hex24 pen_store ''42''
        = (pen_store, message 400 ''Invalid ID format. Must be a valid MongoDB ObjectId.'')
   \<and> put_item hex24 pen_store ''42'' (Some (ObjBody [(''name'', JStr ''Pen2'')]))
        = (pen_store, message 400 ''Invalid ID format. Must be a valid MongoDB ObjectId.'')
   \<and> delete_item hex24 pen_store ''42''
        = (pen_store, message 400 ''Invalid ID format. Must be a valid MongoDB ObjectId.'')"
proof -
  have h: "\<not> isValid hex24 ''42''" by (simp add: hex24_def)
  show ?thesis using h malformed_id_rejected[OF h] by simp
qed

subsection \<open>Creating, reading and deleting an item\<close>

text \<open>
  C3 (the claim: a create request whose name is not a non-empty string, or whose price is
  not a positive number, is answered 400 with no store call). The handler tests the name
  for truthiness only: with any truthy name, a string or not, and a positive price, the
  item is inserted and the answer is 201. The instance after the theorem has the number
  \<open>5\<close> for a name. (What the validation does reject is \<open>post_items_rejects\<close>.)
\<close>

theorem post_items_accepts_truthy_name:
  assumes "truthy (body_prop body ''name'')"
    and "body_prop body ''price'' = JNum p" and "0 < p"
    and "online st" and "map_of (items st) fresh = None"
  shows "post_items fresh st (Some body)
           = (st\<lparr>items := items st @ [(fresh, [(''name'', bson (body_prop body ''name'')),
                                                (''price'', JNum p)])]\<rparr>,
              \<lparr>status = 201,
               json = JObj [(''name'', body_prop body ''name''), (''price'', JNum p),
                            (''_id'', JStr fresh)]\<rparr>)"
  using assms by (simp add: post_items_def Let_def property_def insertOne_def bson_doc_def)

theorem post_items_accepts_truthy_name_witness:
  "truthy (body_prop (ObjBody [(''name'', JNum 5), (''price'', JNum 1)]) ''name'')
   \<and> body_prop (ObjBody [(''name'', JNum 5), (''price'', JNum 1)]) ''price'' = JNum 1
   \<and> (0::real) < 1 \<and> online empty_store \<and> map_of (items empty_store) pen_id = None
   \<and> post_items pen_id empty_store (Some (ObjBody [(''name'', JNum 5), (''price'', JNum 1)]))
       = (empty_store\<lparr>items := [(pen_id, [(''name'', JNum 5), (''price'', JNum 1)])]\<rparr>,
          \<lparr>status = 201,
           json = JObj [(''name'', JNum 5), (''price'', JNum 1), (''_id'', JStr pen_id)]\<rparr>)"
  using post_items_accepts_truthy_name[of "ObjBody [(''name'', JNum 5), (''price'', JNum 1)]" 1
      empty_store pen_id]
  by (simp add: property_def empty_store_def)

text \<open>
  C10. When a create request is answered 201, the document appended to the items collection
  holds the name and the price of the request body and nothing else (the name as the driver
  serialises it, which for a value JSON can denote is the value itself), the response body
  holds them with the generated identifier, and the outcome is the one of the request
  stripped of every other field: whatever else the body carries is neither stored nor
  echoed.
\<close>

theorem post_items_keeps_name_price_only:
  assumes "post_items fresh st (Some body) = (st', r)" and "status r = 201"
  shows "st' = st\<lparr>items := items st @ [(fresh, [(''name'', bson (body_prop body ''name'')),
                                                 (''price'', body_prop body ''price'')])]\<rparr>
       \<and> (json_value (body_prop body ''name'')
            \<longrightarrow> bson (body_prop body ''name'') = body_prop body ''name'')
       \<and> json r = JObj [(''name'', body_prop body ''name''),
                        (''price'', body_prop body ''price''), (''_id'', JStr fresh)]
       \<and> post_items fresh st (Some body)
           = post_items fresh st (Some (ObjBody [(''name'', body_prop body ''name''),
                                          (''price'', body_prop body ''price'')]))"
  using assms post_items_created[OF assms]
  by (auto simp: post_items_def Let_def property_def insertOne_def message_def bson_doc_def
      bson_json split: if_splits sum.splits jv.splits)

theorem post_items_keeps_name_price_only_witness:
  "post_items pen_id empty_store
       (Some (ObjBody [(''name'', JStr ''Pen''), (''colour'', JStr ''red''), (''price'', JNum 1.5),
                 (''_id'', JStr ''1'')]))
     = (pen_store,
        \<lparr>status = 201,
         json = JObj [(''name'', JStr ''Pen''), (''price'', JNum 1.5), (''_id'', JStr pen_id)]\<rparr>)
   \<and> pen_store = empty_store\<lparr>items := [(pen_id, [(''name'', JStr ''Pen''), (''price'', JNum 1.5)])]\<rparr>"
proof -
  let ?b = "ObjBody [(''name'', JStr ''Pen''), (''colour'', JStr ''red''), (''price'', JNum 1.5),
                 (''_id'', JStr ''1'')]"
  obtain st' r where p: "post_items pen_id empty_store (Some ?b) = (st', r)"
    by (cases "post_items pen_id empty_store (Some ?b)")
  have s: "status r = 201"
    using p by (auto simp: post_items_def Let_def property_def insertOne_def empty_store_def)
  have e: "empty_store\<lparr>items := [(pen_id, [(''name'', JStr ''Pen''), (''price'', JNum 1.5)])]\<rparr> = pen_store"
    by (simp add: empty_store_def pen_store_def)
  have "st' = pen_store \<and> json r = JObj [(''name'', JStr ''Pen''), (''price'', JNum 1.5), (''_id'', JStr pen_id)]"
    using post_items_keeps_name_price_only[OF p s] e
    by (simp add: property_def) (simp add: empty_store_def)
  then show ?thesis using p s e by (cases r) simp
qed



subsection \<open>Registering a user\<close>

text \<open>
  C4 (the claim: a password shorter than 6 characters is answered 400 before any store
  call, with a message that describes the rule, a minimum of 6 characters). The status and
  the absence of a store call hold: the store is returned as it was, reachable or not. The
  message does not: for a non-empty password with a username it reads "Password must be
  less than 6 characters", the opposite of the rule enforced.
\<close>

theorem register_short_password:
  assumes "body_prop body ''password'' = JStr p" and "length p < 6"
  shows "register hash salt fresh st (Some body)
           = Some (st, if \<not> truthy (body_prop body ''username'') \<or> p = []
                       then message 400 ''Enter a username and password to register.''
                       else message 400 ''Password must be less than 6 characters'')"
  using assms by (simp add: register_def Let_def)

theorem register_short_password_witness:
  "body_prop (ObjBody [(''username'', JStr ''bob''), (''password'', JStr ''abc'')]) ''password''
     = JStr ''abc''
   \<and> length ''abc'' < 6
   \<and> register toy_hash ''salt'' pen_id pen_store
        (Some (ObjBody [(''username'', JStr ''bob''), (''password'', JStr ''abc'')]))
       = Some (pen_store, message 400 ''Password must be less than 6 characters'')"
  using register_short_password[of
      "ObjBody [(''username'', JStr ''bob''), (''password'', JStr ''abc'')]"
      "''abc''" toy_hash "''salt''" pen_id pen_store]
  by (simp add: property_def)



end
